theory Spec2Isabelle
  imports Complex_Main
begin

section \<open>Tile Brush Tool: placement, grid and undo core\<close>

text \<open>
  A shallow embedding of the operator class \<open>VIEW3D_OT_tile_brush\<close>
  (\<open>tile_brush_tool/operator.py\<close>), its utility mixin (\<open>tile_brush_tool/utils.py\<close>) and the
  constants of \<open>tile_brush_tool/objects.py\<close>.

  Conventions of the embedding:
  \<^item> Python floats (coordinates, angles, sizes, speeds) are real numbers; \<open>math.radians(d)\<close>
    is \<open>d * pi / 180\<close>.
  \<^item> The operator instance \<open>self\<close> is a record that every method takes and returns.
  \<^item> \<open>bpy.data.meshes\<close> is a store from datablock identifiers to mesh contents, with a counter
    for fresh identifiers; a mesh content is the set of tile surfaces joined into it.
  \<^item> Calls into the host application (\<open>copy\<close>, \<open>join\<close>, \<open>remove\<close>) are atomic and succeed
    whenever the datablock they read is in the store; a read of an absent datablock is the
    exception branch of the enclosing \<open>try\<close>.
  \<^item> The asset templates are present for all four sizes: \<open>invoke\<close> cancels the session
    otherwise, so no handler runs without them.
\<close>

subsection \<open>Numbers and vectors\<close>

text \<open>Python's one-argument \<open>round\<close>: nearest integer, ties to the even neighbour.\<close>

definition py_round :: "real \<Rightarrow> int" where
  "py_round x =
     (let f = \<lfloor>x\<rfloor>; d = x - of_int f
      in if d < 1/2 then f else if 1/2 < d then f + 1 else if even f then f else f + 1)"

text \<open>\<open>round(x, 6)\<close>: the same rounding at the sixth decimal place.\<close>

definition round6 :: "real \<Rightarrow> real" where
  "round6 x = of_int (py_round (x * 1000000)) / 1000000"

datatype vec = Vector (vec_x: real) (vec_y: real) (vec_z: real)

datatype euler = Euler (eul_x: real) (eul_y: real) (eul_z: real)

text \<open>A 3x3 matrix as its three rows.\<close>

datatype mat3 = Matrix (row_x: vec) (row_y: vec) (row_z: vec)

definition vec_add :: "vec \<Rightarrow> vec \<Rightarrow> vec" where
  "vec_add a b = Vector (vec_x a + vec_x b) (vec_y a + vec_y b) (vec_z a + vec_z b)"

definition vec_sub :: "vec \<Rightarrow> vec \<Rightarrow> vec" where
  "vec_sub a b = Vector (vec_x a - vec_x b) (vec_y a - vec_y b) (vec_z a - vec_z b)"

definition vec_scale :: "vec \<Rightarrow> real \<Rightarrow> vec" where
  "vec_scale a k = Vector (vec_x a * k) (vec_y a * k) (vec_z a * k)"

definition vec_dot :: "vec \<Rightarrow> vec \<Rightarrow> real" where
  "vec_dot a b = vec_x a * vec_x b + vec_y a * vec_y b + vec_z a * vec_z b"

definition mat_vec :: "mat3 \<Rightarrow> vec \<Rightarrow> vec" where
  "mat_vec m v = Vector (vec_dot (row_x m) v) (vec_dot (row_y m) v) (vec_dot (row_z m) v)"

definition transposed :: "mat3 \<Rightarrow> mat3" where
  "transposed m =
     Matrix (Vector (vec_x (row_x m)) (vec_x (row_y m)) (vec_x (row_z m)))
            (Vector (vec_y (row_x m)) (vec_y (row_y m)) (vec_y (row_z m)))
            (Vector (vec_z (row_x m)) (vec_z (row_y m)) (vec_z (row_z m)))"

text \<open>
  \<open>Euler.to_matrix()\<close> of the host library for the default axis order XYZ: the rotation
  about X is applied first, then Y, then Z.
\<close>

definition to_matrix :: "euler \<Rightarrow> mat3" where
  "to_matrix e =
     (let ci = cos (eul_x e); si = sin (eul_x e);
          cj = cos (eul_y e); sj = sin (eul_y e);
          ch = cos (eul_z e); sh = sin (eul_z e)
      in Matrix (Vector (cj * ch) (sj * si * ch - ci * sh) (sj * ci * ch + si * sh))
                (Vector (cj * sh) (sj * si * sh + ci * ch) (sj * ci * sh - si * ch))
                (Vector (- sj) (cj * si) (cj * ci)))"

definition radians :: "real \<Rightarrow> real" where
  "radians d = d * pi / 180"

subsection \<open>Constants of \<open>objects.py\<close>\<close>

definition TILE_SIZES :: "real list" where
  "TILE_SIZES = [1/2, 1, 2, 4]"

datatype face_name = Bottom | Top | Front | Back | Right | Left

definition CUBE_FACES :: "(euler \<times> face_name) list" where
  "CUBE_FACES =
     [(Euler 0 0 0, Bottom),
      (Euler (radians 180) 0 0, Top),
      (Euler (radians 90) 0 0, Front),
      (Euler (radians (- 90)) 0 0, Back),
      (Euler 0 (radians (- 90)) 0, Right),
      (Euler 0 (radians 90) 0, Left)]"

subsection \<open>The operator's state\<close>

text \<open>
  A placement key: face position and rotation rounded to six decimals, size index,
  inverted flag.
\<close>

type_synonym pos_key = "real \<times> real \<times> real \<times> real \<times> real \<times> real \<times> nat \<times> bool"

text \<open>One tile surface in a mesh: location, rotation, size index of the plane template.\<close>

type_synonym tile_surface = "vec \<times> euler \<times> nat"

type_synonym mesh = "tile_surface set"

record tile_brush =
  preview_location :: vec
  preview_rotation_euler :: euler
  base_location :: vec
  rotation_state :: nat
  tile_size_index :: nat
  current_tile_size :: real
  movement_speed :: real
  previous_speed :: real
  auto_mode :: bool
  inverted_mode :: bool
  last_placed_position :: "(vec \<times> euler \<times> nat) option"
  placed_tiles :: "pos_key set"
  master_object :: "nat option"
  undo_history :: "nat option list"
  undo_positions :: "pos_key set list"
  meshes :: "nat \<rightharpoonup> mesh"
  mesh_counter :: nat

text \<open>
  \<open>master_object\<close> holds the identifier of the structure object's mesh datablock
  (\<open>master_object.data\<close>); \<open>undo_history\<close> holds identifiers of snapshot copies, \<open>None\<close>
  for the "no structure yet" sentinel.
\<close>

subsection \<open>\<open>utils.py\<close>\<close>

definition get_green_face_world_position :: "tile_brush \<Rightarrow> vec" where
  "get_green_face_world_position s =
     (let half_size = current_tile_size s / 2;
          local_face_offset = Vector 0 0 (- half_size);
          rotation_matrix = to_matrix (preview_rotation_euler s);
          rotated_offset = mat_vec rotation_matrix local_face_offset
      in vec_add (preview_location s) rotated_offset)"

definition snap_to_grid :: "tile_brush \<Rightarrow> vec \<Rightarrow> vec" where
  "snap_to_grid s location =
     (if movement_speed s = 1 then
        (if current_tile_size s = 1/2 then
           Vector (of_int (py_round (vec_x location * 4)) / 4)
                  (of_int (py_round (vec_y location * 4)) / 4)
                  (of_int (py_round (vec_z location * 4)) / 4)
         else if current_tile_size s = 1 then
           Vector (of_int (py_round (vec_x location * 4)) / 4)
                  (of_int (py_round (vec_y location * 4)) / 4)
                  (of_int (py_round (vec_z location * 4)) / 4)
         else if current_tile_size s = 2 then
           Vector (of_int (py_round (vec_x location * 2)) / 2)
                  (of_int (py_round (vec_y location * 2)) / 2)
                  (of_int (py_round (vec_z location * 2)) / 2)
         else
           Vector (of_int (py_round (vec_x location)))
                  (of_int (py_round (vec_y location)))
                  (of_int (py_round (vec_z location))))
      else
        (if current_tile_size s = 1/2 then
           Vector (of_int (py_round (vec_x location * 4)) / 4)
                  (of_int (py_round (vec_y location * 4)) / 4)
                  (of_int (py_round (vec_z location * 4)) / 4)
         else if current_tile_size s = 1 then
           Vector (of_int (py_round (vec_x location - 1/2)) + 1/2)
                  (of_int (py_round (vec_y location - 1/2)) + 1/2)
                  (of_int (py_round (vec_z location - 1/2)) + 1/2)
         else if current_tile_size s = 2 then
           Vector (of_int (py_round (vec_x location)))
                  (of_int (py_round (vec_y location)))
                  (of_int (py_round (vec_z location)))
         else
           Vector (of_int (py_round (vec_x location / 2)) * 2)
                  (of_int (py_round (vec_y location / 2)) * 2)
                  (of_int (py_round (vec_z location / 2)) * 2)))"

text \<open>
  The \<open>context\<close> argument of \<open>get_view_relative_vectors\<close>: \<open>region_data\<close> is missing, or
  reading the view matrix raises, or it yields the 3x3 part of the view matrix.
\<close>

datatype view_context = NoRegionData | RegionDataError | RegionData mat3

definition get_view_relative_vectors :: "view_context \<Rightarrow> vec \<times> vec" where
  "get_view_relative_vectors ctx =
     (case ctx of
        NoRegionData \<Rightarrow> (Vector 0 1 0, Vector 1 0 0)
      | RegionDataError \<Rightarrow> (Vector 0 1 0, Vector 1 0 0)
      | RegionData view_matrix \<Rightarrow>
          (let view_rotation = transposed view_matrix;
               forward_world = mat_vec view_rotation (Vector 0 0 (- 1));
               right_world = mat_vec view_rotation (Vector 1 0 0);
               forward_horizontal = Vector (vec_x forward_world) (vec_y forward_world) 0;
               right_horizontal = Vector (vec_x right_world) (vec_y right_world) 0;
               forward_single_axis =
                 (if \<bar>vec_x forward_horizontal\<bar> > \<bar>vec_y forward_horizontal\<bar>
                  then Vector (if vec_x forward_horizontal > 0 then 1 else - 1) 0 0
                  else Vector 0 (if vec_y forward_horizontal > 0 then 1 else - 1) 0);
               right_single_axis =
                 (if \<bar>vec_x right_horizontal\<bar> > \<bar>vec_y right_horizontal\<bar>
                  then Vector (if vec_x right_horizontal > 0 then 1 else - 1) 0 0
                  else Vector 0 (if vec_y right_horizontal > 0 then 1 else - 1) 0)
           in (forward_single_axis, right_single_axis)))"


subsection \<open>\<open>operator.py\<close>: placement key, ledger and undo log\<close>

text \<open>
  The key tuple that \<open>place_tile_at_current_position\<close> and
  \<open>delete_tile_at_current_position\<close> both build, by the same expression, from the green
  face position and the preview's rotation.
\<close>

definition pos_key_of :: "tile_brush \<Rightarrow> pos_key" where
  "pos_key_of s =
     (let current_face_position = get_green_face_world_position s
      in (round6 (vec_x current_face_position),
          round6 (vec_y current_face_position),
          round6 (vec_z current_face_position),
          round6 (eul_x (preview_rotation_euler s)),
          round6 (eul_y (preview_rotation_euler s)),
          round6 (eul_z (preview_rotation_euler s)),
          tile_size_index s,
          inverted_mode s))"

text \<open>
  \<open>store_undo_snapshot\<close>. Without a structure the sentinel and a copy of the key set are
  appended and nothing else happens. With a structure a copy of its mesh is appended, and
  the limit of 20 is applied; that code sits inside the \<open>else\<close> branch only. A failing
  \<open>data.copy()\<close> or \<open>meshes.remove\<close> leaves the \<open>try\<close> at that statement.
\<close>

definition store_undo_snapshot :: "tile_brush \<Rightarrow> tile_brush" where
  "store_undo_snapshot s =
     (case master_object s of
        None \<Rightarrow>
          s\<lparr>undo_history := undo_history s @ [None],
            undo_positions := undo_positions s @ [placed_tiles s]\<rparr>
      | Some m \<Rightarrow>
          (case meshes s m of
             None \<Rightarrow> s
           | Some content \<Rightarrow>
               (let mesh_copy = mesh_counter s;
                    s1 = s\<lparr>meshes := (meshes s)(mesh_copy \<mapsto> content),
                           mesh_counter := Suc (mesh_counter s),
                           undo_history := undo_history s @ [Some mesh_copy],
                           undo_positions := undo_positions s @ [placed_tiles s]\<rparr>
                in if length (undo_history s1) > 20 then
                     (let old_mesh = hd (undo_history s1);
                          s2 = s1\<lparr>undo_history := tl (undo_history s1)\<rparr>
                      in case old_mesh of
                           None \<Rightarrow> s2\<lparr>undo_positions := tl (undo_positions s2)\<rparr>
                         | Some old \<Rightarrow>
                             (if old \<in> dom (meshes s2)
                              then s2\<lparr>meshes := (meshes s2)(old := None),
                                      undo_positions := tl (undo_positions s2)\<rparr>
                              else s2))
                   else s1)))"

definition tile_of_key :: "pos_key \<Rightarrow> tile_surface" where
  "tile_of_key k =
     (case k of (pos_x, pos_y, pos_z, rot_x, rot_y, rot_z, size_index, inverted) \<Rightarrow>
        (Vector pos_x pos_y pos_z, Euler rot_x rot_y rot_z, size_index))"

text \<open>
  \<open>rebuild_structure_mesh\<close>: the structure object is removed (its mesh datablock stays in
  the store), and, if keys remain, one tile per key is created and all are joined into a
  new structure.
\<close>

definition rebuild_structure_mesh :: "tile_brush \<Rightarrow> tile_brush" where
  "rebuild_structure_mesh s =
     (let s1 = (case master_object s of Some m \<Rightarrow> s\<lparr>master_object := None\<rparr> | None \<Rightarrow> s)
      in if placed_tiles s1 = {} then s1
         else s1\<lparr>meshes := (meshes s1)(mesh_counter s1 \<mapsto> tile_of_key ` placed_tiles s1),
                 mesh_counter := Suc (mesh_counter s1),
                 master_object := Some (mesh_counter s1)\<rparr>)"

definition place_tile_at_current_position :: "tile_brush \<Rightarrow> bool \<times> tile_brush" where
  "place_tile_at_current_position s =
     (let current_face_position = get_green_face_world_position s;
          pos_key = pos_key_of s
      in if pos_key \<in> placed_tiles s then (False, s)
         else
           (let s1 = store_undo_snapshot s;
                placed = (current_face_position, preview_rotation_euler s1, tile_size_index s1);
                s2 = (case master_object s1 of
                        None \<Rightarrow>
                          s1\<lparr>meshes := (meshes s1)(mesh_counter s1 \<mapsto> {placed}),
                             mesh_counter := Suc (mesh_counter s1),
                             master_object := Some (mesh_counter s1)\<rparr>
                      | Some m \<Rightarrow>
                          (case meshes s1 m of
                             None \<Rightarrow> s1
                           | Some content \<Rightarrow>
                               s1\<lparr>meshes := (meshes s1)(m \<mapsto> insert placed content)\<rparr>));
                s3 = s2\<lparr>placed_tiles := insert pos_key (placed_tiles s2),
                        last_placed_position :=
                          Some (current_face_position, preview_rotation_euler s2,
                                tile_size_index s2)\<rparr>
            in (True, s3)))"

definition delete_tile_at_current_position :: "tile_brush \<Rightarrow> tile_brush" where
  "delete_tile_at_current_position s =
     (let pos_key = pos_key_of s
      in if pos_key \<in> placed_tiles s then
           (let s1 = store_undo_snapshot s;
                s2 = s1\<lparr>placed_tiles := placed_tiles s1 - {pos_key}\<rparr>;
                s3 = rebuild_structure_mesh s2
            in s3\<lparr>last_placed_position := None\<rparr>)
         else s)"

text \<open>
  \<open>undo_placement\<close>. Both lists are popped first; everything after that is inside the
  \<open>try\<close>, so a failure there returns \<open>False\<close> with the snapshot already gone.
\<close>

definition undo_placement :: "tile_brush \<Rightarrow> bool \<times> tile_brush" where
  "undo_placement s =
     (if undo_history s = [] then (False, s)
      else
        (let last_mesh = last (undo_history s);
             s1 = s\<lparr>undo_history := butlast (undo_history s)\<rparr>
         in if undo_positions s1 = [] then (False, s1)
            else
              (let last_positions = last (undo_positions s1);
                   s2 = s1\<lparr>undo_positions := butlast (undo_positions s1)\<rparr>
               in case last_mesh of
                    None \<Rightarrow>
                      (True, s2\<lparr>master_object := None, placed_tiles := {},
                                last_placed_position := None\<rparr>)
                  | Some snapshot \<Rightarrow>
                      (case master_object s2 of
                         None \<Rightarrow> (False, s2)
                       | Some old_mesh \<Rightarrow>
                           (let s3 = s2\<lparr>master_object := Some snapshot\<rparr>
                            in if old_mesh \<in> dom (meshes s3)
                               then (True, s3\<lparr>meshes := (meshes s3)(old_mesh := None),
                                               placed_tiles := last_positions,
                                               last_placed_position := None\<rparr>)
                               else (False, s3))))))"

subsection \<open>\<open>operator.py\<close>: size change and key handlers\<close>

definition change_tile_size :: "int \<Rightarrow> tile_brush \<Rightarrow> tile_brush" where
  "change_tile_size direction s =
     (let old_index = tile_size_index s;
          new_index = (if direction > 0
                       then (tile_size_index s + 1) mod length TILE_SIZES
                       else nat ((int (tile_size_index s) - 1) mod int (length TILE_SIZES)))
      in if new_index = old_index then s
         else
           (let old_rotation = preview_rotation_euler s;
                old_location = preview_location s;
                current_green_face_position = get_green_face_world_position s;
                preserve_height = vec_z current_green_face_position;
                s1 = s\<lparr>tile_size_index := new_index,
                       current_tile_size := TILE_SIZES ! new_index\<rparr>;
                new_half_size = current_tile_size s1 / 2;
                new_cube_center_z = preserve_height + new_half_size;
                snapped_base =
                  (if movement_speed s1 = 1
                   then Vector (of_int (py_round (vec_x old_location * 2)) / 2)
                               (of_int (py_round (vec_y old_location * 2)) / 2)
                               new_cube_center_z
                   else Vector (vec_x old_location) (vec_y old_location) new_cube_center_z)
            in s1\<lparr>base_location := snapped_base,
                   preview_rotation_euler := old_rotation,
                   preview_location := snapped_base,
                   last_placed_position := None\<rparr>))"

text \<open>The keys that \<open>modal\<close> handles on a press event.\<close>

datatype key =
    W | S | A | D | UP_ARROW | DOWN_ARROW | LEFT_ARROW | RIGHT_ARROW
  | Q | E | PAGE_UP | PAGE_DOWN
  | TAB | ONE | TWO | THREE | FOUR | FIVE | SIX
  | NUMPAD_1 | NUMPAD_2 | NUMPAD_3 | NUMPAD_4 | NUMPAD_5 | NUMPAD_6
  | R | T | V | X | C | Z | SPACE

record event =
  ev_type :: key
  shift :: bool
  ctrl :: bool

text \<open>Step selection at the head of the keyboard part of \<open>modal\<close>.\<close>

definition step_of :: "event \<Rightarrow> tile_brush \<Rightarrow> real" where
  "step_of ev s =
     (if shift ev then 1/10
      else if movement_speed s = 1 then 1/2
      else current_tile_size s)"

definition set_z :: "vec \<Rightarrow> real \<Rightarrow> vec" where
  "set_z v z = Vector (vec_x v) (vec_y v) z"

text \<open>The candidate location after the movement keys; \<open>None\<close> for every other key.\<close>

definition moved_loc :: "view_context \<Rightarrow> event \<Rightarrow> tile_brush \<Rightarrow> (bool \<times> vec) option" where
  "moved_loc context ev s =
     (let step = step_of ev s;
          loc = preview_location s;
          forward_vec = fst (get_view_relative_vectors context);
          right_vec = snd (get_view_relative_vectors context);
          original_z = vec_z loc;
          k = ev_type ev
      in if k = W \<or> k = UP_ARROW then
           Some (True, set_z (vec_add loc (vec_scale forward_vec step)) original_z)
         else if k = S \<or> k = DOWN_ARROW then
           Some (True, set_z (vec_sub loc (vec_scale forward_vec step)) original_z)
         else if k = A \<or> k = LEFT_ARROW then
           Some (True, set_z (vec_sub loc (vec_scale right_vec step)) original_z)
         else if k = D \<or> k = RIGHT_ARROW then
           Some (True, set_z (vec_add loc (vec_scale right_vec step)) original_z)
         else if k = Q \<or> k = PAGE_UP then
           (let vertical_step = step in Some (False, set_z loc (vec_z loc + vertical_step)))
         else if k = E \<or> k = PAGE_DOWN then
           (let vertical_step = step in Some (False, set_z loc (vec_z loc - vertical_step)))
         else None)"

text \<open>
  The \<open>moved_horizontal\<close> and \<open>moved_vertical\<close> blocks: both snap X/Y to the half-unit grid
  in Normal mode only, store the location, and place a tile in auto-mode.
\<close>

definition apply_move :: "event \<Rightarrow> vec \<Rightarrow> tile_brush \<Rightarrow> tile_brush" where
  "apply_move ev loc s =
     (let precision_mode = shift ev;
          snapped_loc =
            (if precision_mode then loc
             else if movement_speed s = 1
             then Vector (of_int (py_round (vec_x loc * 2)) / 2)
                         (of_int (py_round (vec_y loc * 2)) / 2)
                         (vec_z loc)
             else loc);
          s1 = s\<lparr>preview_location := snapped_loc, base_location := snapped_loc,
                 last_placed_position := None\<rparr>
      in if auto_mode s1 then snd (place_tile_at_current_position s1) else s1)"

definition face_number :: "key \<Rightarrow> nat option" where
  "face_number k =
     (if k = ONE \<or> k = NUMPAD_1 then Some 0
      else if k = TWO \<or> k = NUMPAD_2 then Some 1
      else if k = THREE \<or> k = NUMPAD_3 then Some 2
      else if k = FOUR \<or> k = NUMPAD_4 then Some 3
      else if k = FIVE \<or> k = NUMPAD_5 then Some 4
      else if k = SIX \<or> k = NUMPAD_6 then Some 5
      else None)"

text \<open>The block shared by TAB and the number keys once \<open>rotation_state\<close> is set.\<close>

definition apply_face :: "nat \<Rightarrow> tile_brush \<Rightarrow> tile_brush" where
  "apply_face n s =
     (let s1 = s\<lparr>rotation_state := n\<rparr>;
          rotation = fst (CUBE_FACES ! rotation_state s1)
      in s1\<lparr>preview_rotation_euler := rotation,
             preview_location := base_location s1,
             last_placed_position := None\<rparr>)"

definition cycle_face :: "tile_brush \<Rightarrow> tile_brush" where
  "cycle_face s = apply_face ((rotation_state s + 1) mod length CUBE_FACES) s"

definition spin_z :: "bool \<Rightarrow> tile_brush \<Rightarrow> tile_brush" where
  "spin_z ctrl_held s =
     (let rotation_angle = (if ctrl_held then radians (- 45) else radians 45);
          current_rotation = preview_rotation_euler s;
          current_rotation = Euler (eul_x current_rotation) (eul_y current_rotation)
                                   (eul_z current_rotation + rotation_angle)
      in s\<lparr>preview_rotation_euler := current_rotation,
            preview_location := base_location s,
            last_placed_position := None\<rparr>)"

definition toggle_speed :: "tile_brush \<Rightarrow> tile_brush" where
  "toggle_speed s =
     (if auto_mode s then s
      else if movement_speed s = 1 then s\<lparr>movement_speed := 2\<rparr>
      else s\<lparr>movement_speed := 1\<rparr>)"

definition toggle_auto :: "tile_brush \<Rightarrow> tile_brush" where
  "toggle_auto s =
     (if \<not> auto_mode s
      then s\<lparr>auto_mode := True, previous_speed := movement_speed s, movement_speed := 2\<rparr>
      else s\<lparr>auto_mode := False, movement_speed := previous_speed s\<rparr>)"

text \<open>
  The keyboard part of \<open>modal\<close> for a press event. The \<open>if key == ...\<close> blocks are tested
  one after another in the source; the key is a single value, so at most one block runs.
\<close>

definition modal :: "view_context \<Rightarrow> event \<Rightarrow> tile_brush \<Rightarrow> tile_brush" where
  "modal context ev s =
     (case moved_loc context ev s of
        Some (horizontal, loc) \<Rightarrow> apply_move ev loc s
      | None \<Rightarrow>
          (let k = ev_type ev
           in if k = TAB then cycle_face s
              else case face_number k of
                Some n \<Rightarrow> apply_face n s
              | None \<Rightarrow>
                  if k = R then spin_z (ctrl ev) s
                  else if k = T then change_tile_size 1 s
                  else if k = V then toggle_speed s
                  else if k = X then toggle_auto s
                  else if k = C then delete_tile_at_current_position s
                  else if k = Z \<and> ctrl ev then snd (undo_placement s)
                  else if k = SPACE then snd (place_tile_at_current_position s)
                  else s))"

text \<open>The state that \<open>invoke\<close> leaves, for a cursor location and the template's rotation.\<close>

definition invoke :: "vec \<Rightarrow> euler \<Rightarrow> tile_brush" where
  "invoke cursor_loc template_rotation =
     (let s0 = \<lparr>preview_location = cursor_loc,
                preview_rotation_euler = template_rotation,
                base_location = cursor_loc,
                rotation_state = 0,
                tile_size_index = 2,
                current_tile_size = TILE_SIZES ! 2,
                movement_speed = 1,
                previous_speed = 1,
                auto_mode = False,
                inverted_mode = False,
                last_placed_position = None,
                placed_tiles = {},
                master_object = None,
                undo_history = [],
                undo_positions = [],
                meshes = Map.empty,
                mesh_counter = 0\<rparr>;
          snapped_loc = snap_to_grid s0 cursor_loc
      in s0\<lparr>preview_location := snapped_loc, base_location := snapped_loc\<rparr>)"


subsection \<open>Notions used to state the properties\<close>

text \<open>
  \<open>r\<close> is \<open>c\<close> rounded to the nearest point of the grid of spacing \<open>g\<close>: it is a grid point
  and no grid point is closer to \<open>c\<close>.
\<close>

definition nearest_on_grid :: "real \<Rightarrow> real \<Rightarrow> real \<Rightarrow> bool" where
  "nearest_on_grid g c r \<longleftrightarrow>
     (\<exists>k::int. r = of_int k * g) \<and> (\<forall>m::int. \<bar>r - c\<bar> \<le> \<bar>of_int m * g - c\<bar>)"

text \<open>The grid spacing of Normal mode for each tile size.\<close>

definition normal_grid :: "real \<Rightarrow> real" where
  "normal_grid sz = (if sz = 1/2 \<or> sz = 1 then 1/4 else if sz = 2 then 1/2 else 1)"

text \<open>The four unit vectors along world X and world Y.\<close>

definition axis_units :: "vec set" where
  "axis_units = {Vector 1 0 0, Vector (- 1) 0 0, Vector 0 1 0, Vector 0 (- 1) 0}"

text \<open>A point whose X and Y coordinates are multiples of one half.\<close>

definition on_half_grid :: "vec \<Rightarrow> bool" where
  "on_half_grid v \<longleftrightarrow> (\<exists>i j::int. vec_x v = of_int i / 2 \<and> vec_y v = of_int j / 2)"

text \<open>\<open>n\<close> commits in a row with nothing in between: the results and the final state.\<close>

fun commit_n :: "nat \<Rightarrow> tile_brush \<Rightarrow> bool list \<times> tile_brush" where
  "commit_n 0 s = ([], s)"
| "commit_n (Suc n) s =
     (case place_tile_at_current_position s of
        (ok, s1) \<Rightarrow> (case commit_n n s1 of (oks, s2) \<Rightarrow> (ok # oks, s2)))"

text \<open>A session right after \<open>invoke\<close>, with the cursor at the origin.\<close>

definition s_start :: tile_brush where
  "s_start = invoke (Vector 0 0 0) (Euler 0 0 0)"

text \<open>
  A pose of the preview as the placement key reads it: centre, rotation, size index and
  inverted flag. \<open>set_pose\<close> stands for the key presses between two ledger operations:
  it moves the preview to a pose and, like every handler that changes the pose, clears the
  placement lock; it touches neither the ledger nor the undo log.
\<close>

record pose =
  pose_location :: vec
  pose_rotation_euler :: euler
  pose_size_index :: nat
  pose_inverted :: bool

definition set_pose :: "pose \<Rightarrow> tile_brush \<Rightarrow> tile_brush" where
  "set_pose p s =
     s\<lparr>preview_location := pose_location p,
       preview_rotation_euler := pose_rotation_euler p,
       base_location := pose_location p,
       tile_size_index := pose_size_index p mod length TILE_SIZES,
       current_tile_size := TILE_SIZES ! (pose_size_index p mod length TILE_SIZES),
       inverted_mode := pose_inverted p,
       last_placed_position := None\<rparr>"

text \<open>
  A session as a sequence of ledger operations, each at a pose of its own: a commit
  (\<open>SPACE\<close>), a delete (\<open>C\<close>) or an undo (\<open>Ctrl+Z\<close>).
\<close>

datatype session_op = Commit pose | Delete pose | Undo

fun run_ops :: "session_op list \<Rightarrow> tile_brush \<Rightarrow> tile_brush" where
  "run_ops [] s = s"
| "run_ops (Commit p # os) s = run_ops os (snd (place_tile_at_current_position (set_pose p s)))"
| "run_ops (Delete p # os) s = run_ops os (delete_tile_at_current_position (set_pose p s))"
| "run_ops (Undo # os) s = run_ops os (snd (undo_placement s))"

text \<open>
  \<open>commits ps s\<close>: one commit at each pose of \<open>ps\<close> in turn, all of them successful
  (\<open>None\<close> as soon as one returns \<open>False\<close>). \<open>undos n s\<close>: \<open>n\<close> undos in a row, all of
  them successful.
\<close>

fun commits :: "pose list \<Rightarrow> tile_brush \<Rightarrow> tile_brush option" where
  "commits [] s = Some s"
| "commits (p # ps) s =
     (case place_tile_at_current_position (set_pose p s) of
        (True, s') \<Rightarrow> commits ps s'
      | (False, s') \<Rightarrow> None)"




text \<open>A commit followed by a delete at the same pose.\<close>

definition place_then_delete :: "tile_brush \<Rightarrow> tile_brush" where
  "place_then_delete s =
     delete_tile_at_current_position (snd (place_tile_at_current_position s))"

section \<open>Properties\<close>

subsection \<open>Rounding\<close>

lemma py_round_of_int: "py_round (of_int n) = n"
  by (simp add: py_round_def)

lemma py_round_near: "\<bar>of_int (py_round x) - x\<bar> \<le> 1/2"
  unfolding py_round_def Let_def by (auto; linarith)

lemma py_round_nearest: "\<bar>of_int (py_round x) - x\<bar> \<le> \<bar>of_int m - x\<bar>"
proof (cases "m = py_round x")
  case True
  then show ?thesis by simp
next
  case False
  then have "1 \<le> \<bar>m - py_round x\<bar>" by linarith
  then have "(1::real) \<le> \<bar>of_int m - of_int (py_round x)\<bar>"
    by (metis of_int_1 of_int_abs of_int_diff of_int_le_iff)
  with py_round_near [of x] show ?thesis by linarith
qed

lemma nearest_quarter: "nearest_on_grid (1/4) c (of_int (py_round (c * 4)) / 4)"
  unfolding nearest_on_grid_def
proof (intro conjI allI)
  show "\<exists>k::int. real_of_int (py_round (c * 4)) / 4 = of_int k * (1/4)" by auto
  fix m :: int
  from py_round_nearest [of "c * 4" m]
  show "\<bar>real_of_int (py_round (c * 4)) / 4 - c\<bar> \<le> \<bar>of_int m * (1/4) - c\<bar>"
    by (simp add: abs_if split: if_splits)
qed

lemma nearest_half: "nearest_on_grid (1/2) c (of_int (py_round (c * 2)) / 2)"
  unfolding nearest_on_grid_def
proof (intro conjI allI)
  show "\<exists>k::int. real_of_int (py_round (c * 2)) / 2 = of_int k * (1/2)" by auto
  fix m :: int
  from py_round_nearest [of "c * 2" m]
  show "\<bar>real_of_int (py_round (c * 2)) / 2 - c\<bar> \<le> \<bar>of_int m * (1/2) - c\<bar>"
    by (simp add: abs_if split: if_splits)
qed

lemma nearest_unit: "nearest_on_grid 1 c (of_int (py_round c))"
  unfolding nearest_on_grid_def
  using py_round_nearest [of c] by auto

lemma s_start_fields:
  "movement_speed s_start = 1" "current_tile_size s_start = 2" "tile_size_index s_start = 2"
  "placed_tiles s_start = {}" "preview_rotation_euler s_start = Euler 0 0 0"
  "preview_location s_start = Vector 0 0 0" "auto_mode s_start = False"
  by (simp_all add: s_start_def invoke_def TILE_SIZES_def Let_def snap_to_grid_def py_round_def)

subsection \<open>Grid snapping\<close>

text \<open>
  Claim C6. In Normal mode (\<open>movement_speed = 1.0\<close>), for every point and every tile size
  of \<open>TILE_SIZES\<close>, each coordinate returned by \<open>snap_to_grid\<close> is the input coordinate
  rounded to the nearest point of the size's grid: spacing 0.25 for sizes 0.5 and 1.0,
  spacing 0.5 for size 2.0, spacing 1.0 for size 4.0.
\<close>

theorem snap_to_grid_normal_nearest:
  assumes "movement_speed s = 1" and "current_tile_size s \<in> set TILE_SIZES"
  shows "nearest_on_grid (normal_grid (current_tile_size s)) (vec_x p) (vec_x (snap_to_grid s p))
       \<and> nearest_on_grid (normal_grid (current_tile_size s)) (vec_y p) (vec_y (snap_to_grid s p))
       \<and> nearest_on_grid (normal_grid (current_tile_size s)) (vec_z p) (vec_z (snap_to_grid s p))"
  using assms
  by (auto simp: snap_to_grid_def normal_grid_def TILE_SIZES_def nearest_quarter nearest_half
      nearest_unit)

text \<open>
  Claim C6 at the start session (Normal mode, size 2.0): the point (1.3, -0.7, 0.25) snaps to
  (1.5, -0.5, 0), ties going to the even multiple.
\<close>

theorem snap_to_grid_normal_nearest_witness:
  "movement_speed s_start = 1 \<and> current_tile_size s_start \<in> set TILE_SIZES
   \<and> nearest_on_grid (1/2) (13/10) (vec_x (snap_to_grid s_start (Vector (13/10) (- 7/10) (1/4))))
   \<and> snap_to_grid s_start (Vector (13/10) (- 7/10) (1/4)) = Vector (3/2) (- 1/2) 0"
proof -
  have h1: "movement_speed s_start = 1" by (simp add: s_start_fields)
  have h2: "current_tile_size s_start \<in> set TILE_SIZES"
    by (simp add: s_start_fields TILE_SIZES_def)
  have v: "snap_to_grid s_start (Vector (13/10) (- 7/10) (1/4)) = Vector (3/2) (- 1/2) 0"
    by (simp add: snap_to_grid_def s_start_fields py_round_def)
  from snap_to_grid_normal_nearest [OF h1 h2, of "Vector (13/10) (- 7/10) (1/4)"]
  have "nearest_on_grid (1/2) (13/10)
          (vec_x (snap_to_grid s_start (Vector (13/10) (- 7/10) (1/4))))"
    by (simp add: normal_grid_def s_start_fields)
  with h1 h2 v show ?thesis by simp
qed

text \<open>
  Claim C7. For every point, every tile size of \<open>TILE_SIZES\<close> and both speed modes (Normal,
  \<open>movement_speed = 1.0\<close>, and Fast, \<open>movement_speed = 2.0\<close>, the latter with its half-offset
  grid at size 1.0), snapping a snapped point returns it unchanged.
\<close>

theorem snap_to_grid_idempotent:
  assumes "current_tile_size s \<in> set TILE_SIZES"
    and "movement_speed s = 1 \<or> movement_speed s = 2"
  shows "snap_to_grid s (snap_to_grid s p) = snap_to_grid s p"
  by (simp add: snap_to_grid_def py_round_of_int)

text \<open>Claim C7 at the start session and the point (1.3, -0.7, 0.25).\<close>

theorem snap_to_grid_idempotent_witness:
  "current_tile_size s_start \<in> set TILE_SIZES
   \<and> (movement_speed s_start = 1 \<or> movement_speed s_start = 2)
   \<and> snap_to_grid s_start (snap_to_grid s_start (Vector (13/10) (- 7/10) (1/4)))
       = snap_to_grid s_start (Vector (13/10) (- 7/10) (1/4))"
proof -
  have h1: "movement_speed s_start = 1 \<or> movement_speed s_start = 2"
    by (simp add: s_start_fields)
  have h2: "current_tile_size s_start \<in> set TILE_SIZES"
    by (simp add: s_start_fields TILE_SIZES_def)
  from h1 h2 snap_to_grid_idempotent [OF h2 h1, of "Vector (13/10) (- 7/10) (1/4)"]
  show ?thesis by simp
qed

subsection \<open>View projection\<close>

lemma view_forward_axis: "fst (get_view_relative_vectors c) \<in> axis_units"
  by (cases c) (simp_all add: get_view_relative_vectors_def axis_units_def Let_def)

lemma view_right_axis: "snd (get_view_relative_vectors c) \<in> axis_units"
  by (cases c) (simp_all add: get_view_relative_vectors_def axis_units_def Let_def)

lemma axis_units_z: "v \<in> axis_units \<Longrightarrow> vec_z v = 0"
  by (auto simp: axis_units_def)

text \<open>
  Claim C9. For every camera orientation both vectors returned by
  \<open>get_view_relative_vectors\<close> are among (1,0,0), (-1,0,0), (0,1,0), (0,-1,0); with
  \<open>region_data\<close> missing, or an exception raised while reading it, the result is
  forward = (0,1,0) and right = (1,0,0).
\<close>

theorem view_vectors_axis_aligned:
  "fst (get_view_relative_vectors c) \<in> axis_units
   \<and> snd (get_view_relative_vectors c) \<in> axis_units
   \<and> get_view_relative_vectors NoRegionData = (Vector 0 1 0, Vector 1 0 0)
   \<and> get_view_relative_vectors RegionDataError = (Vector 0 1 0, Vector 1 0 0)"
  by (simp add: view_forward_axis view_right_axis) (simp add: get_view_relative_vectors_def)


subsection \<open>Placement and deletion\<close>

lemma store_undo_snapshot_preview:
  "preview_location (store_undo_snapshot s) = preview_location s"
  "preview_rotation_euler (store_undo_snapshot s) = preview_rotation_euler s"
  "current_tile_size (store_undo_snapshot s) = current_tile_size s"
  "tile_size_index (store_undo_snapshot s) = tile_size_index s"
  "inverted_mode (store_undo_snapshot s) = inverted_mode s"
  "placed_tiles (store_undo_snapshot s) = placed_tiles s"
  by (simp_all add: store_undo_snapshot_def Let_def split: option.splits)

lemma place_preview:
  "preview_location (snd (place_tile_at_current_position s)) = preview_location s"
  "preview_rotation_euler (snd (place_tile_at_current_position s)) = preview_rotation_euler s"
  "current_tile_size (snd (place_tile_at_current_position s)) = current_tile_size s"
  "tile_size_index (snd (place_tile_at_current_position s)) = tile_size_index s"
  "inverted_mode (snd (place_tile_at_current_position s)) = inverted_mode s"
  by (simp_all add: place_tile_at_current_position_def Let_def store_undo_snapshot_preview
      split: option.splits)

lemma pos_key_of_cong:
  "preview_location t = preview_location s \<Longrightarrow>
   preview_rotation_euler t = preview_rotation_euler s \<Longrightarrow>
   current_tile_size t = current_tile_size s \<Longrightarrow>
   tile_size_index t = tile_size_index s \<Longrightarrow>
   inverted_mode t = inverted_mode s \<Longrightarrow> pos_key_of t = pos_key_of s"
  by (simp add: pos_key_of_def get_green_face_world_position_def)

lemma pos_key_of_place: "pos_key_of (snd (place_tile_at_current_position s)) = pos_key_of s"
  by (rule pos_key_of_cong) (simp_all add: place_preview)

lemma place_occupied:
  "pos_key_of s \<in> placed_tiles s \<Longrightarrow> place_tile_at_current_position s = (False, s)"
  by (simp add: place_tile_at_current_position_def)

lemma place_free:
  "pos_key_of s \<notin> placed_tiles s \<Longrightarrow>
   fst (place_tile_at_current_position s)
   \<and> placed_tiles (snd (place_tile_at_current_position s))
       = insert (pos_key_of s) (placed_tiles s)"
  by (simp add: place_tile_at_current_position_def Let_def store_undo_snapshot_preview
      split: option.splits)

lemma commit_n_occupied:
  "pos_key_of s \<in> placed_tiles s \<Longrightarrow> commit_n n s = (replicate n False, s)"
  by (induction n) (simp_all add: place_occupied)

text \<open>
  Claim C1. At a pose whose key is not yet in \<open>placed_tiles\<close>, of any number of commits
  with the pose unchanged exactly the first returns \<open>True\<close>, and it inserts the pose's key;
  every later one returns \<open>False\<close> and the whole state (placed tiles, undo history and
  positions, structure and mesh store) stays the state after the first commit.
\<close>

theorem placement_exactly_once:
  assumes "pos_key_of s \<notin> placed_tiles s"
  shows "commit_n (Suc n) s
           = (True # replicate n False, snd (place_tile_at_current_position s))
       \<and> placed_tiles (snd (place_tile_at_current_position s))
           = insert (pos_key_of s) (placed_tiles s)"
proof -
  obtain ok s1 where p: "place_tile_at_current_position s = (ok, s1)"
    by (cases "place_tile_at_current_position s")
  from place_free [OF assms] p
  have ok: "ok" and tiles: "placed_tiles s1 = insert (pos_key_of s) (placed_tiles s)"
    by simp_all
  from pos_key_of_place [of s] p have "pos_key_of s1 = pos_key_of s" by simp
  with tiles have "pos_key_of s1 \<in> placed_tiles s1" by simp
  then have "commit_n n s1 = (replicate n False, s1)" by (rule commit_n_occupied)
  with p ok tiles show ?thesis by simp
qed

text \<open>Claim C1 at the start session: three commits give \<open>True, False, False\<close>.\<close>

theorem placement_exactly_once_witness:
  "pos_key_of s_start \<notin> placed_tiles s_start
   \<and> commit_n (Suc 2) s_start
       = (True # replicate 2 False, snd (place_tile_at_current_position s_start))
   \<and> placed_tiles (snd (place_tile_at_current_position s_start))
       = insert (pos_key_of s_start) (placed_tiles s_start)"
proof -
  have h: "pos_key_of s_start \<notin> placed_tiles s_start"
    by (simp add: s_start_fields)
  from h placement_exactly_once [OF h, of 2] show ?thesis by simp
qed

text \<open>
  Claim C10. When the key of the current pose, the tuple that the commit builds, is not in
  \<open>placed_tiles\<close>, \<open>delete_tile_at_current_position\<close> returns the state as it was: no key
  removed, no snapshot pushed, no rebuild of the structure; the same holds for the key event
  \<open>C\<close> of \<open>modal\<close>.
\<close>

theorem delete_unoccupied_noop:
  assumes "pos_key_of s \<notin> placed_tiles s"
  shows "delete_tile_at_current_position s = s
       \<and> modal c \<lparr>ev_type = C, shift = sh, ctrl = ct\<rparr> s = s"
  using assms
  by (simp add: delete_tile_at_current_position_def modal_def moved_loc_def face_number_def
      Let_def)

text \<open>Claim C10 at the start session, where no tile is placed.\<close>

theorem delete_unoccupied_noop_witness:
  "pos_key_of s_start \<notin> placed_tiles s_start
   \<and> delete_tile_at_current_position s_start = s_start
   \<and> modal NoRegionData \<lparr>ev_type = C, shift = False, ctrl = False\<rparr> s_start = s_start"
proof -
  have h: "pos_key_of s_start \<notin> placed_tiles s_start"
    by (simp add: s_start_fields)
  from h delete_unoccupied_noop [OF h, of NoRegionData False False] show ?thesis by simp
qed

subsection \<open>Movement steps\<close>

lemma set_z_same:
  "vec_z v = 0 \<Longrightarrow>
   set_z (vec_add loc (vec_scale v k)) (vec_z loc) = vec_add loc (vec_scale v k)"
  by (simp add: set_z_def vec_add_def vec_scale_def)

lemma set_z_same_sub:
  "vec_z v = 0 \<Longrightarrow>
   set_z (vec_sub loc (vec_scale v k)) (vec_z loc) = vec_sub loc (vec_scale v k)"
  by (simp add: set_z_def vec_sub_def vec_scale_def)

lemma apply_move_location_fast:
  "\<not> shift e \<Longrightarrow> movement_speed s \<noteq> 1 \<Longrightarrow> preview_location (apply_move e loc s) = loc"
  by (simp add: apply_move_def Let_def place_preview)

lemma apply_move_z: "vec_z (preview_location (apply_move e loc s)) = vec_z loc"
  by (simp add: apply_move_def Let_def place_preview)

lemma s_fast_fields:
  "movement_speed (toggle_speed s_start) = 2" "current_tile_size (toggle_speed s_start) = 2"
  "preview_location (toggle_speed s_start) = Vector 0 0 0"
  by (simp_all add: toggle_speed_def s_start_fields)

lemma apply_move_location_precision:
  "shift e \<Longrightarrow> preview_location (apply_move e loc s) = loc"
  by (simp add: apply_move_def Let_def place_preview)

lemma apply_move_location_normal:
  "\<not> shift e \<Longrightarrow> movement_speed s = 1 \<Longrightarrow>
   preview_location (apply_move e loc s)
     = Vector (of_int (py_round (vec_x loc * 2)) / 2) (of_int (py_round (vec_y loc * 2)) / 2)
         (vec_z loc)"
  by (simp add: apply_move_def Let_def place_preview)

lemma half_snap_fixed:
  assumes "x = of_int i / 2"
  shows "of_int (py_round (x * 2)) / 2 = x"
proof -
  from assms have "x * 2 = of_int i" by simp
  then show ?thesis using assms by (simp add: py_round_of_int)
qed

lemma half_snap_step:
  assumes "x = of_int i / 2" and "a = 1 \<or> a = - 1 \<or> a = 0"
  shows "of_int (py_round ((x + a * (1/2)) * 2)) / 2 = x + a * (1/2)"
    and "of_int (py_round ((x - a * (1/2)) * 2)) / 2 = x - a * (1/2)"
proof -
  from assms(2) have "a = of_int (1::int) \<or> a = of_int (- 1::int) \<or> a = of_int (0::int)"
    by simp
  then obtain k :: int where k: "a = of_int k" by blast
  from assms(1) k have "x + a * (1/2) = of_int (i + k) / 2" by simp
  then show "of_int (py_round ((x + a * (1/2)) * 2)) / 2 = x + a * (1/2)"
    by (rule half_snap_fixed)
  from assms(1) k have "x - a * (1/2) = of_int (i - k) / 2" by (simp add: diff_divide_distrib)
  then show "of_int (py_round ((x - a * (1/2)) * 2)) / 2 = x - a * (1/2)"
    by (rule half_snap_fixed)
qed

lemma axis_units_coords:
  "v \<in> axis_units \<Longrightarrow>
   (vec_x v = 1 \<or> vec_x v = - 1 \<or> vec_x v = 0) \<and> (vec_y v = 1 \<or> vec_y v = - 1 \<or> vec_y v = 0)"
  by (auto simp: axis_units_def)

lemma half_snap_add:
  assumes "on_half_grid loc" and "v \<in> axis_units"
  shows "Vector (of_int (py_round (vec_x (vec_add loc (vec_scale v (1/2))) * 2)) / 2)
           (of_int (py_round (vec_y (vec_add loc (vec_scale v (1/2))) * 2)) / 2)
           (vec_z loc)
         = vec_add loc (vec_scale v (1/2))"
proof -
  from assms(1) obtain i j :: int where i: "vec_x loc = of_int i / 2"
    and j: "vec_y loc = of_int j / 2" by (auto simp: on_half_grid_def)
  from axis_units_coords [OF assms(2)]
  have ax: "vec_x v = 1 \<or> vec_x v = - 1 \<or> vec_x v = 0"
    and ay: "vec_y v = 1 \<or> vec_y v = - 1 \<or> vec_y v = 0" by simp_all
  have vz: "vec_z v = 0" by (rule axis_units_z [OF assms(2)])
  from half_snap_step(1) [OF i ax] half_snap_step(1) [OF j ay] vz show ?thesis
    by (cases loc; cases v) (simp add: vec_add_def vec_scale_def)
qed

lemma half_snap_sub:
  assumes "on_half_grid loc" and "v \<in> axis_units"
  shows "Vector (of_int (py_round (vec_x (vec_sub loc (vec_scale v (1/2))) * 2)) / 2)
           (of_int (py_round (vec_y (vec_sub loc (vec_scale v (1/2))) * 2)) / 2)
           (vec_z loc)
         = vec_sub loc (vec_scale v (1/2))"
proof -
  from assms(1) obtain i j :: int where i: "vec_x loc = of_int i / 2"
    and j: "vec_y loc = of_int j / 2" by (auto simp: on_half_grid_def)
  from axis_units_coords [OF assms(2)]
  have ax: "vec_x v = 1 \<or> vec_x v = - 1 \<or> vec_x v = 0"
    and ay: "vec_y v = 1 \<or> vec_y v = - 1 \<or> vec_y v = 0" by simp_all
  have vz: "vec_z v = 0" by (rule axis_units_z [OF assms(2)])
  from half_snap_step(2) [OF i ax] half_snap_step(2) [OF j ay] vz show ?thesis
    by (cases loc; cases v) (simp add: vec_sub_def vec_scale_def)
qed

lemma set_z_vec_z:
  "vec_z (set_z v z) = z" "vec_x (set_z v z) = vec_x v" "vec_y (set_z v z) = vec_y v"
  by (simp_all add: set_z_def)

lemma modal_forward:
  "ev_type e \<in> {W, UP_ARROW} \<Longrightarrow>
   modal c e s = apply_move e (vec_add (preview_location s)
       (vec_scale (fst (get_view_relative_vectors c)) (step_of e s))) s"
  using set_z_same [OF axis_units_z [OF view_forward_axis], of "preview_location s" c "step_of e s"]
  by (auto simp: modal_def moved_loc_def Let_def)

lemma modal_backward:
  "ev_type e \<in> {S, DOWN_ARROW} \<Longrightarrow>
   modal c e s = apply_move e (vec_sub (preview_location s)
       (vec_scale (fst (get_view_relative_vectors c)) (step_of e s))) s"
  using set_z_same_sub [OF axis_units_z [OF view_forward_axis], of "preview_location s" c
      "step_of e s"]
  by (auto simp: modal_def moved_loc_def Let_def)

lemma modal_left:
  "ev_type e \<in> {A, LEFT_ARROW} \<Longrightarrow>
   modal c e s = apply_move e (vec_sub (preview_location s)
       (vec_scale (snd (get_view_relative_vectors c)) (step_of e s))) s"
  using set_z_same_sub [OF axis_units_z [OF view_right_axis], of "preview_location s" c
      "step_of e s"]
  by (auto simp: modal_def moved_loc_def Let_def)

lemma modal_right:
  "ev_type e \<in> {D, RIGHT_ARROW} \<Longrightarrow>
   modal c e s = apply_move e (vec_add (preview_location s)
       (vec_scale (snd (get_view_relative_vectors c)) (step_of e s))) s"
  using set_z_same [OF axis_units_z [OF view_right_axis], of "preview_location s" c
      "step_of e s"]
  by (auto simp: modal_def moved_loc_def Let_def)

lemma vec_z_add_axis:
  "v \<in> axis_units \<Longrightarrow> vec_z (vec_add loc (vec_scale v k)) = vec_z loc"
  "v \<in> axis_units \<Longrightarrow> vec_z (vec_sub loc (vec_scale v k)) = vec_z loc"
  by (auto simp: axis_units_def vec_add_def vec_sub_def vec_scale_def)

lemma s_start_on_half_grid: "on_half_grid (preview_location s_start)"
proof -
  have "vec_x (preview_location s_start) = of_int 0 / 2
      \<and> vec_y (preview_location s_start) = of_int 0 / 2"
    by (simp add: s_start_fields)
  then show ?thesis unfolding on_half_grid_def by blast
qed

text \<open>
  Claim C8. The step of a key move is 0.5 in Normal mode whatever the tile size, the current
  tile size in Fast mode, and 0.1 with Shift held (Precision), and the moves themselves use
  it: the vertical keys change Z by that same step; in Fast mode a horizontal key moves the
  preview centre by exactly the tile size along the forward or right axis of the view, with
  no snapping; with Shift held it moves the centre by exactly 0.1 along that axis; in Normal
  mode it moves the centre by 0.5 along that axis and rounds X and Y to the half-unit grid,
  which for a centre already on that grid is a move by exactly 0.5.
\<close>

theorem move_step_sizes:
  "(\<not> shift e \<and> movement_speed s = 1 \<longrightarrow> step_of e s = 1/2)
   \<and> (\<not> shift e \<and> movement_speed s = 2 \<longrightarrow> step_of e s = current_tile_size s)
   \<and> (shift e \<longrightarrow> step_of e s = 1/10)
   \<and> (ev_type e \<in> {Q, PAGE_UP} \<longrightarrow>
        vec_z (preview_location (modal c e s)) = vec_z (preview_location s) + step_of e s)
   \<and> (ev_type e \<in> {E, PAGE_DOWN} \<longrightarrow>
        vec_z (preview_location (modal c e s)) = vec_z (preview_location s) - step_of e s)
   \<and> (\<not> shift e \<and> movement_speed s = 2 \<and> ev_type e \<in> {W, UP_ARROW} \<longrightarrow>
        preview_location (modal c e s)
          = vec_add (preview_location s)
              (vec_scale (fst (get_view_relative_vectors c)) (current_tile_size s)))
   \<and> (\<not> shift e \<and> movement_speed s = 2 \<and> ev_type e \<in> {S, DOWN_ARROW} \<longrightarrow>
        preview_location (modal c e s)
          = vec_sub (preview_location s)
              (vec_scale (fst (get_view_relative_vectors c)) (current_tile_size s)))
   \<and> (\<not> shift e \<and> movement_speed s = 2 \<and> ev_type e \<in> {A, LEFT_ARROW} \<longrightarrow>
        preview_location (modal c e s)
          = vec_sub (preview_location s)
              (vec_scale (snd (get_view_relative_vectors c)) (current_tile_size s)))
   \<and> (\<not> shift e \<and> movement_speed s = 2 \<and> ev_type e \<in> {D, RIGHT_ARROW} \<longrightarrow>
        preview_location (modal c e s)
          = vec_add (preview_location s)
              (vec_scale (snd (get_view_relative_vectors c)) (current_tile_size s)))
   \<and> (shift e \<and> ev_type e \<in> {W, UP_ARROW} \<longrightarrow>
        preview_location (modal c e s)
          = vec_add (preview_location s)
              (vec_scale (fst (get_view_relative_vectors c)) (1/10)))
   \<and> (shift e \<and> ev_type e \<in> {S, DOWN_ARROW} \<longrightarrow>
        preview_location (modal c e s)
          = vec_sub (preview_location s)
              (vec_scale (fst (get_view_relative_vectors c)) (1/10)))
   \<and> (shift e \<and> ev_type e \<in> {A, LEFT_ARROW} \<longrightarrow>
        preview_location (modal c e s)
          = vec_sub (preview_location s)
              (vec_scale (snd (get_view_relative_vectors c)) (1/10)))
   \<and> (shift e \<and> ev_type e \<in> {D, RIGHT_ARROW} \<longrightarrow>
        preview_location (modal c e s)
          = vec_add (preview_location s)
              (vec_scale (snd (get_view_relative_vectors c)) (1/10)))
   \<and> (\<not> shift e \<and> movement_speed s = 1 \<and> ev_type e \<in> {W, UP_ARROW} \<longrightarrow>
        (let t = vec_add (preview_location s)
                   (vec_scale (fst (get_view_relative_vectors c)) (1/2))
         in preview_location (modal c e s)
              = Vector (of_int (py_round (vec_x t * 2)) / 2) (of_int (py_round (vec_y t * 2)) / 2)
                  (vec_z (preview_location s))))
   \<and> (\<not> shift e \<and> movement_speed s = 1 \<and> ev_type e \<in> {S, DOWN_ARROW} \<longrightarrow>
        (let t = vec_sub (preview_location s)
                   (vec_scale (fst (get_view_relative_vectors c)) (1/2))
         in preview_location (modal c e s)
              = Vector (of_int (py_round (vec_x t * 2)) / 2) (of_int (py_round (vec_y t * 2)) / 2)
                  (vec_z (preview_location s))))
   \<and> (\<not> shift e \<and> movement_speed s = 1 \<and> ev_type e \<in> {A, LEFT_ARROW} \<longrightarrow>
        (let t = vec_sub (preview_location s)
                   (vec_scale (snd (get_view_relative_vectors c)) (1/2))
         in preview_location (modal c e s)
              = Vector (of_int (py_round (vec_x t * 2)) / 2) (of_int (py_round (vec_y t * 2)) / 2)
                  (vec_z (preview_location s))))
   \<and> (\<not> shift e \<and> movement_speed s = 1 \<and> ev_type e \<in> {D, RIGHT_ARROW} \<longrightarrow>
        (let t = vec_add (preview_location s)
                   (vec_scale (snd (get_view_relative_vectors c)) (1/2))
         in preview_location (modal c e s)
              = Vector (of_int (py_round (vec_x t * 2)) / 2) (of_int (py_round (vec_y t * 2)) / 2)
                  (vec_z (preview_location s))))
   \<and> (\<not> shift e \<and> movement_speed s = 1 \<and> ev_type e \<in> {W, UP_ARROW}
        \<and> on_half_grid (preview_location s) \<longrightarrow>
        preview_location (modal c e s)
          = vec_add (preview_location s)
              (vec_scale (fst (get_view_relative_vectors c)) (1/2)))
   \<and> (\<not> shift e \<and> movement_speed s = 1 \<and> ev_type e \<in> {S, DOWN_ARROW}
        \<and> on_half_grid (preview_location s) \<longrightarrow>
        preview_location (modal c e s)
          = vec_sub (preview_location s)
              (vec_scale (fst (get_view_relative_vectors c)) (1/2)))
   \<and> (\<not> shift e \<and> movement_speed s = 1 \<and> ev_type e \<in> {A, LEFT_ARROW}
        \<and> on_half_grid (preview_location s) \<longrightarrow>
        preview_location (modal c e s)
          = vec_sub (preview_location s)
              (vec_scale (snd (get_view_relative_vectors c)) (1/2)))
   \<and> (\<not> shift e \<and> movement_speed s = 1 \<and> ev_type e \<in> {D, RIGHT_ARROW}
        \<and> on_half_grid (preview_location s) \<longrightarrow>
        preview_location (modal c e s)
          = vec_add (preview_location s)
              (vec_scale (snd (get_view_relative_vectors c)) (1/2)))"
proof -
  have step_normal: "\<not> shift e \<and> movement_speed s = 1 \<longrightarrow> step_of e s = 1/2"
    by (simp add: step_of_def)
  have step_fast: "\<not> shift e \<and> movement_speed s = 2 \<longrightarrow> step_of e s = current_tile_size s"
    by (simp add: step_of_def)
  have step_precision: "shift e \<longrightarrow> step_of e s = 1/10"
    by (simp add: step_of_def)
  have up: "(ev_type e \<in> {Q, PAGE_UP} \<longrightarrow>
        vec_z (preview_location (modal c e s)) = vec_z (preview_location s) + step_of e s)"
    by (auto simp: modal_def moved_loc_def Let_def apply_move_z set_z_def)
  have down: "(ev_type e \<in> {E, PAGE_DOWN} \<longrightarrow>
        vec_z (preview_location (modal c e s)) = vec_z (preview_location s) - step_of e s)"
    by (auto simp: modal_def moved_loc_def Let_def apply_move_z set_z_def)
  have fw_fast: "(\<not> shift e \<and> movement_speed s = 2 \<and> ev_type e \<in> {W, UP_ARROW} \<longrightarrow>
        preview_location (modal c e s)
          = vec_add (preview_location s)
              (vec_scale (fst (get_view_relative_vectors c)) (current_tile_size s)))"
    by (simp add: modal_forward apply_move_location_fast step_of_def)
  have fw_prec: "(shift e \<and> ev_type e \<in> {W, UP_ARROW} \<longrightarrow>
        preview_location (modal c e s)
          = vec_add (preview_location s)
              (vec_scale (fst (get_view_relative_vectors c)) (1/10)))"
    by (simp add: modal_forward apply_move_location_precision step_of_def)
  have fw_norm: "(\<not> shift e \<and> movement_speed s = 1 \<and> ev_type e \<in> {W, UP_ARROW} \<longrightarrow>
        (let t = vec_add (preview_location s)
                   (vec_scale (fst (get_view_relative_vectors c)) (1/2))
         in preview_location (modal c e s)
              = Vector (of_int (py_round (vec_x t * 2)) / 2) (of_int (py_round (vec_y t * 2)) / 2)
                  (vec_z (preview_location s))))"
    by (simp add: modal_forward apply_move_location_normal step_of_def Let_def
        vec_z_add_axis [OF view_forward_axis])
  have fw_grid: "(\<not> shift e \<and> movement_speed s = 1 \<and> ev_type e \<in> {W, UP_ARROW}
        \<and> on_half_grid (preview_location s) \<longrightarrow>
        preview_location (modal c e s)
          = vec_add (preview_location s)
              (vec_scale (fst (get_view_relative_vectors c)) (1/2)))"
    using half_snap_add [OF _ view_forward_axis, of "preview_location s" c]
    by (simp add: modal_forward apply_move_location_normal step_of_def
        vec_z_add_axis [OF view_forward_axis])
  have bw_fast: "(\<not> shift e \<and> movement_speed s = 2 \<and> ev_type e \<in> {S, DOWN_ARROW} \<longrightarrow>
        preview_location (modal c e s)
          = vec_sub (preview_location s)
              (vec_scale (fst (get_view_relative_vectors c)) (current_tile_size s)))"
    by (simp add: modal_backward apply_move_location_fast step_of_def)
  have bw_prec: "(shift e \<and> ev_type e \<in> {S, DOWN_ARROW} \<longrightarrow>
        preview_location (modal c e s)
          = vec_sub (preview_location s)
              (vec_scale (fst (get_view_relative_vectors c)) (1/10)))"
    by (simp add: modal_backward apply_move_location_precision step_of_def)
  have bw_norm: "(\<not> shift e \<and> movement_speed s = 1 \<and> ev_type e \<in> {S, DOWN_ARROW} \<longrightarrow>
        (let t = vec_sub (preview_location s)
                   (vec_scale (fst (get_view_relative_vectors c)) (1/2))
         in preview_location (modal c e s)
              = Vector (of_int (py_round (vec_x t * 2)) / 2) (of_int (py_round (vec_y t * 2)) / 2)
                  (vec_z (preview_location s))))"
    by (simp add: modal_backward apply_move_location_normal step_of_def Let_def
        vec_z_add_axis [OF view_forward_axis])
  have bw_grid: "(\<not> shift e \<and> movement_speed s = 1 \<and> ev_type e \<in> {S, DOWN_ARROW}
        \<and> on_half_grid (preview_location s) \<longrightarrow>
        preview_location (modal c e s)
          = vec_sub (preview_location s)
              (vec_scale (fst (get_view_relative_vectors c)) (1/2)))"
    using half_snap_sub [OF _ view_forward_axis, of "preview_location s" c]
    by (simp add: modal_backward apply_move_location_normal step_of_def
        vec_z_add_axis [OF view_forward_axis])
  have lf_fast: "(\<not> shift e \<and> movement_speed s = 2 \<and> ev_type e \<in> {A, LEFT_ARROW} \<longrightarrow>
        preview_location (modal c e s)
          = vec_sub (preview_location s)
              (vec_scale (snd (get_view_relative_vectors c)) (current_tile_size s)))"
    by (simp add: modal_left apply_move_location_fast step_of_def)
  have lf_prec: "(shift e \<and> ev_type e \<in> {A, LEFT_ARROW} \<longrightarrow>
        preview_location (modal c e s)
          = vec_sub (preview_location s)
              (vec_scale (snd (get_view_relative_vectors c)) (1/10)))"
    by (simp add: modal_left apply_move_location_precision step_of_def)
  have lf_norm: "(\<not> shift e \<and> movement_speed s = 1 \<and> ev_type e \<in> {A, LEFT_ARROW} \<longrightarrow>
        (let t = vec_sub (preview_location s)
                   (vec_scale (snd (get_view_relative_vectors c)) (1/2))
         in preview_location (modal c e s)
              = Vector (of_int (py_round (vec_x t * 2)) / 2) (of_int (py_round (vec_y t * 2)) / 2)
                  (vec_z (preview_location s))))"
    by (simp add: modal_left apply_move_location_normal step_of_def Let_def
        vec_z_add_axis [OF view_right_axis])
  have lf_grid: "(\<not> shift e \<and> movement_speed s = 1 \<and> ev_type e \<in> {A, LEFT_ARROW}
        \<and> on_half_grid (preview_location s) \<longrightarrow>
        preview_location (modal c e s)
          = vec_sub (preview_location s)
              (vec_scale (snd (get_view_relative_vectors c)) (1/2)))"
    using half_snap_sub [OF _ view_right_axis, of "preview_location s" c]
    by (simp add: modal_left apply_move_location_normal step_of_def
        vec_z_add_axis [OF view_right_axis])
  have rt_fast: "(\<not> shift e \<and> movement_speed s = 2 \<and> ev_type e \<in> {D, RIGHT_ARROW} \<longrightarrow>
        preview_location (modal c e s)
          = vec_add (preview_location s)
              (vec_scale (snd (get_view_relative_vectors c)) (current_tile_size s)))"
    by (simp add: modal_right apply_move_location_fast step_of_def)
  have rt_prec: "(shift e \<and> ev_type e \<in> {D, RIGHT_ARROW} \<longrightarrow>
        preview_location (modal c e s)
          = vec_add (preview_location s)
              (vec_scale (snd (get_view_relative_vectors c)) (1/10)))"
    by (simp add: modal_right apply_move_location_precision step_of_def)
  have rt_norm: "(\<not> shift e \<and> movement_speed s = 1 \<and> ev_type e \<in> {D, RIGHT_ARROW} \<longrightarrow>
        (let t = vec_add (preview_location s)
                   (vec_scale (snd (get_view_relative_vectors c)) (1/2))
         in preview_location (modal c e s)
              = Vector (of_int (py_round (vec_x t * 2)) / 2) (of_int (py_round (vec_y t * 2)) / 2)
                  (vec_z (preview_location s))))"
    by (simp add: modal_right apply_move_location_normal step_of_def Let_def
        vec_z_add_axis [OF view_right_axis])
  have rt_grid: "(\<not> shift e \<and> movement_speed s = 1 \<and> ev_type e \<in> {D, RIGHT_ARROW}
        \<and> on_half_grid (preview_location s) \<longrightarrow>
        preview_location (modal c e s)
          = vec_add (preview_location s)
              (vec_scale (snd (get_view_relative_vectors c)) (1/2)))"
    using half_snap_add [OF _ view_right_axis, of "preview_location s" c]
    by (simp add: modal_right apply_move_location_normal step_of_def
        vec_z_add_axis [OF view_right_axis])
  show ?thesis
    by (intro conjI)
      (rule step_normal,
       rule step_fast,
       rule step_precision,
       rule up,
       rule down,
       rule fw_fast,
       rule bw_fast,
       rule lf_fast,
       rule rt_fast,
       rule fw_prec,
       rule bw_prec,
       rule lf_prec,
       rule rt_prec,
       rule fw_norm,
       rule bw_norm,
       rule lf_norm,
       rule rt_norm,
       rule fw_grid,
       rule bw_grid,
       rule lf_grid,
       rule rt_grid)
qed

text \<open>
  Claim C8 at the start session (size 2.0, centre at the origin, which is on the half-unit
  grid): steps 0.5, 2 and 0.1; Q and E move Z by 0.5; W, S, A, D move the centre to
  (0,2,0), (0,-2,0), (-2,0,0), (2,0,0) in Fast mode, by 0.1 with Shift held and by 0.5 in
  Normal mode.
\<close>

theorem move_step_sizes_witness:
  "step_of \<lparr>ev_type = W, shift = False, ctrl = False\<rparr> s_start = 1/2
   \<and> step_of \<lparr>ev_type = W, shift = False, ctrl = False\<rparr> (toggle_speed s_start) = 2
   \<and> step_of \<lparr>ev_type = W, shift = True, ctrl = False\<rparr> s_start = 1/10
   \<and> vec_z (preview_location (modal NoRegionData \<lparr>ev_type = Q, shift = False, ctrl = False\<rparr> s_start)) = 1/2
   \<and> vec_z (preview_location (modal NoRegionData \<lparr>ev_type = E, shift = False, ctrl = False\<rparr> s_start)) = - 1/2
   \<and> preview_location (modal NoRegionData \<lparr>ev_type = W, shift = False, ctrl = False\<rparr> (toggle_speed s_start)) = Vector 0 2 0
   \<and> preview_location (modal NoRegionData \<lparr>ev_type = S, shift = False, ctrl = False\<rparr> (toggle_speed s_start)) = Vector 0 (- 2) 0
   \<and> preview_location (modal NoRegionData \<lparr>ev_type = A, shift = False, ctrl = False\<rparr> (toggle_speed s_start)) = Vector (- 2) 0 0
   \<and> preview_location (modal NoRegionData \<lparr>ev_type = D, shift = False, ctrl = False\<rparr> (toggle_speed s_start)) = Vector 2 0 0
   \<and> preview_location (modal NoRegionData \<lparr>ev_type = W, shift = True, ctrl = False\<rparr> s_start) = Vector 0 (1/10) 0
   \<and> preview_location (modal NoRegionData \<lparr>ev_type = S, shift = True, ctrl = False\<rparr> s_start) = Vector 0 (- 1/10) 0
   \<and> preview_location (modal NoRegionData \<lparr>ev_type = A, shift = True, ctrl = False\<rparr> s_start) = Vector (- 1/10) 0 0
   \<and> preview_location (modal NoRegionData \<lparr>ev_type = D, shift = True, ctrl = False\<rparr> s_start) = Vector (1/10) 0 0
   \<and> on_half_grid (preview_location s_start)
   \<and> preview_location (modal NoRegionData \<lparr>ev_type = W, shift = False, ctrl = False\<rparr> s_start) = Vector 0 (1/2) 0
   \<and> preview_location (modal NoRegionData \<lparr>ev_type = S, shift = False, ctrl = False\<rparr> s_start) = Vector 0 (- 1/2) 0
   \<and> preview_location (modal NoRegionData \<lparr>ev_type = A, shift = False, ctrl = False\<rparr> s_start) = Vector (- 1/2) 0 0
   \<and> preview_location (modal NoRegionData \<lparr>ev_type = D, shift = False, ctrl = False\<rparr> s_start) = Vector (1/2) 0 0"
  using s_start_on_half_grid
    move_step_sizes [of "\<lparr>ev_type = W, shift = False, ctrl = False\<rparr>" s_start NoRegionData]
    move_step_sizes [of "\<lparr>ev_type = S, shift = False, ctrl = False\<rparr>" s_start NoRegionData]
    move_step_sizes [of "\<lparr>ev_type = A, shift = False, ctrl = False\<rparr>" s_start NoRegionData]
    move_step_sizes [of "\<lparr>ev_type = D, shift = False, ctrl = False\<rparr>" s_start NoRegionData]
    move_step_sizes [of "\<lparr>ev_type = W, shift = True, ctrl = False\<rparr>" s_start NoRegionData]
    move_step_sizes [of "\<lparr>ev_type = S, shift = True, ctrl = False\<rparr>" s_start NoRegionData]
    move_step_sizes [of "\<lparr>ev_type = A, shift = True, ctrl = False\<rparr>" s_start NoRegionData]
    move_step_sizes [of "\<lparr>ev_type = D, shift = True, ctrl = False\<rparr>" s_start NoRegionData]
    move_step_sizes [of "\<lparr>ev_type = Q, shift = False, ctrl = False\<rparr>" s_start NoRegionData]
    move_step_sizes [of "\<lparr>ev_type = E, shift = False, ctrl = False\<rparr>" s_start NoRegionData]
    move_step_sizes [of "\<lparr>ev_type = W, shift = False, ctrl = False\<rparr>" "toggle_speed s_start" NoRegionData]
    move_step_sizes [of "\<lparr>ev_type = S, shift = False, ctrl = False\<rparr>" "toggle_speed s_start" NoRegionData]
    move_step_sizes [of "\<lparr>ev_type = A, shift = False, ctrl = False\<rparr>" "toggle_speed s_start" NoRegionData]
    move_step_sizes [of "\<lparr>ev_type = D, shift = False, ctrl = False\<rparr>" "toggle_speed s_start" NoRegionData]
  by (simp add: s_start_fields s_fast_fields get_view_relative_vectors_def vec_add_def
      vec_sub_def vec_scale_def py_round_of_int [of 0, simplified]
      py_round_of_int [of 1, simplified] py_round_of_int [of "- 1", simplified])

subsection \<open>Orientation\<close>

lemma radians_45_pos: "radians 45 > 0"
  by (simp add: radians_def)

text \<open>
  Claim C5 as stated fails. From the start session (Bottom preset, no spin), one \<open>R\<close> press
  accumulates a Z offset of 45 degrees; the following \<open>TAB\<close> leaves exactly the Top preset
  (180 degrees about X, Z angle 0), which is not the Top preset with the 45 degree offset on
  top.
\<close>

theorem z_spin_lost_on_cycle:
  "preview_rotation_euler
     (modal NoRegionData \<lparr>ev_type = TAB, shift = False, ctrl = False\<rparr>
        (modal NoRegionData \<lparr>ev_type = R, shift = False, ctrl = False\<rparr> s_start))
     = fst (CUBE_FACES ! 1)
   \<and> preview_rotation_euler
     (modal NoRegionData \<lparr>ev_type = TAB, shift = False, ctrl = False\<rparr>
        (modal NoRegionData \<lparr>ev_type = R, shift = False, ctrl = False\<rparr> s_start))
     \<noteq> Euler (eul_x (fst (CUBE_FACES ! 1))) (eul_y (fst (CUBE_FACES ! 1)))
              (eul_z (fst (CUBE_FACES ! 1)) + radians 45)"
  using radians_45_pos
  by (simp add: modal_def moved_loc_def face_number_def cycle_face_def apply_face_def
      spin_z_def s_start_def invoke_def CUBE_FACES_def Let_def)

text \<open>
  Claim C5 as amended. The \<open>R\<close> key adds 45 degrees (minus 45 with Ctrl) to the Z angle of the
  current orientation and keeps its X and Y angles, so successive presses accumulate; \<open>TAB\<close>
  and the number keys set the orientation to exactly the rotation of the new preset, whatever
  the orientation was before, so the accumulated Z offset does not survive them.
\<close>

theorem rotation_transitions:
  "(ev_type e = R \<longrightarrow>
      preview_rotation_euler (modal c e s)
        = Euler (eul_x (preview_rotation_euler s)) (eul_y (preview_rotation_euler s))
            (eul_z (preview_rotation_euler s)
               + (if ctrl e then radians (- 45) else radians 45)))
   \<and> (ev_type e = TAB \<longrightarrow>
      preview_rotation_euler (modal c e s) = fst (CUBE_FACES ! ((rotation_state s + 1) mod 6))
      \<and> rotation_state (modal c e s) = (rotation_state s + 1) mod 6)
   \<and> (face_number (ev_type e) = Some n \<longrightarrow>
      preview_rotation_euler (modal c e s) = fst (CUBE_FACES ! n)
      \<and> rotation_state (modal c e s) = n)"
  by (auto simp: modal_def moved_loc_def face_number_def cycle_face_def apply_face_def
      spin_z_def CUBE_FACES_def Let_def split: if_splits)

text \<open>
  The amended claim C5 at the start session: \<open>R\<close> gives Z angle 45 degrees, \<open>TAB\<close> the Top
  preset, \<open>FIVE\<close> the Right preset.
\<close>

theorem rotation_transitions_witness:
  "preview_rotation_euler
     (modal NoRegionData \<lparr>ev_type = R, shift = False, ctrl = False\<rparr> s_start)
     = Euler 0 0 (radians 45)
   \<and> preview_rotation_euler
     (modal NoRegionData \<lparr>ev_type = TAB, shift = False, ctrl = False\<rparr> s_start)
     = Euler (radians 180) 0 0
   \<and> preview_rotation_euler
     (modal NoRegionData \<lparr>ev_type = FIVE, shift = False, ctrl = False\<rparr> s_start)
     = Euler 0 (radians (- 90)) 0"
  using rotation_transitions [of "\<lparr>ev_type = R, shift = False, ctrl = False\<rparr>" NoRegionData
      s_start 0]
    rotation_transitions [of "\<lparr>ev_type = TAB, shift = False, ctrl = False\<rparr>" NoRegionData
      s_start 0]
    rotation_transitions [of "\<lparr>ev_type = FIVE, shift = False, ctrl = False\<rparr>" NoRegionData
      s_start 4]
  by (simp add: s_start_fields face_number_def CUBE_FACES_def s_start_def invoke_def Let_def)

subsection \<open>Size change\<close>

lemma green_face_z:
  "vec_z (get_green_face_world_position s)
   = vec_z (preview_location s)
     - cos (eul_y (preview_rotation_euler s)) * cos (eul_x (preview_rotation_euler s))
       * (current_tile_size s / 2)"
  by (simp add: get_green_face_world_position_def to_matrix_def mat_vec_def vec_dot_def
      vec_add_def Let_def)

lemma change_index_differs:
  "(if d > 0 then (i + 1) mod length TILE_SIZES
    else nat ((int i - 1) mod int (length TILE_SIZES))) \<noteq> i"
proof (cases "d > 0")
  case True
  have "(i + 1) mod 4 \<noteq> i" by presburger
  with True show ?thesis by (simp add: TILE_SIZES_def)
next
  case False
  have "(int i - 1) mod 4 \<noteq> int i" by presburger
  then have "nat ((int i - 1) mod 4) \<noteq> i" by (simp add: nat_eq_iff)
  with False show ?thesis by (simp add: TILE_SIZES_def)
qed

lemma change_tile_size_center:
  "vec_z (preview_location (change_tile_size d s))
   = vec_z (get_green_face_world_position s) + current_tile_size (change_tile_size d s) / 2"
  using change_index_differs [of d "tile_size_index s"]
  by (simp add: change_tile_size_def Let_def)

lemma change_tile_size_rotation:
  "preview_rotation_euler (change_tile_size d s) = preview_rotation_euler s"
  by (simp add: change_tile_size_def Let_def)

lemma change_size_face_height_drift:
  "vec_z (get_green_face_world_position (change_tile_size d s))
   = vec_z (get_green_face_world_position s)
     + (1 - cos (eul_y (preview_rotation_euler s)) * cos (eul_x (preview_rotation_euler s)))
       * (current_tile_size (change_tile_size d s) / 2)"
  by (simp add: green_face_z [of "change_tile_size d s"] change_tile_size_center
      change_tile_size_rotation algebra_simps)

text \<open>
  Claim C4 against the code. \<open>change_tile_size\<close> reads the placement-face height of the
  rotated preview and then puts the new centre at that height plus half of the new size,
  which restores the face only where the face offset points straight down. With the Top
  preset selected at the start session (size 2.0, centre at the origin) the placement face
  is at Z = 1; after the size change to 4.0 the centre is at Z = 1 + 2 = 3 and the placement
  face at Z = 5, so the face height is not preserved.
\<close>

theorem change_size_face_height_top:
  "vec_z (get_green_face_world_position
       (modal NoRegionData \<lparr>ev_type = TWO, shift = False, ctrl = False\<rparr> s_start)) = 1
   \<and> vec_z (get_green_face_world_position
       (change_tile_size 1
          (modal NoRegionData \<lparr>ev_type = TWO, shift = False, ctrl = False\<rparr> s_start))) = 5
   \<and> vec_z (get_green_face_world_position
       (change_tile_size 1
          (modal NoRegionData \<lparr>ev_type = TWO, shift = False, ctrl = False\<rparr> s_start)))
     \<noteq> vec_z (get_green_face_world_position
       (modal NoRegionData \<lparr>ev_type = TWO, shift = False, ctrl = False\<rparr> s_start))"
  by (simp add: green_face_z change_tile_size_center change_tile_size_rotation)
     (simp add: modal_def moved_loc_def face_number_def apply_face_def s_start_def invoke_def
      CUBE_FACES_def TILE_SIZES_def Let_def change_tile_size_def snap_to_grid_def py_round_def
      radians_def)

subsection \<open>Undo log\<close>




lemma store_no_structure:
  "master_object s = None \<Longrightarrow>
   store_undo_snapshot s
     = s\<lparr>undo_history := undo_history s @ [None],
         undo_positions := undo_positions s @ [placed_tiles s]\<rparr>"
  by (simp add: store_undo_snapshot_def)





lemma store_fields:
  "master_object (store_undo_snapshot s) = master_object s"
  "placed_tiles (store_undo_snapshot s) = placed_tiles s"
  by (simp_all add: store_undo_snapshot_def Let_def split: option.splits)






















lemma place_then_delete_cycle:
  assumes "master_object s = None" and "placed_tiles s = {}"
    and "length (undo_history s) < 19"
  shows "master_object (place_then_delete s) = None
       \<and> placed_tiles (place_then_delete s) = {}
       \<and> length (undo_history (place_then_delete s)) = length (undo_history s) + 2"
  using assms
  by (simp add: place_then_delete_def place_tile_at_current_position_def
      delete_tile_at_current_position_def store_undo_snapshot_def rebuild_structure_mesh_def
      pos_key_of_def get_green_face_world_position_def Let_def)

lemma place_then_delete_iter:
  assumes "master_object s = None" and "placed_tiles s = {}" and "undo_history s = []"
  shows "n \<le> 10 \<Longrightarrow>
         master_object ((place_then_delete ^^ n) s) = None
       \<and> placed_tiles ((place_then_delete ^^ n) s) = {}
       \<and> length (undo_history ((place_then_delete ^^ n) s)) = 2 * n"
proof (induction n)
  case 0
  with assms show ?case by simp
next
  case (Suc n)
  then have ih: "master_object ((place_then_delete ^^ n) s) = None"
    "placed_tiles ((place_then_delete ^^ n) s) = {}"
    "length (undo_history ((place_then_delete ^^ n) s)) = 2 * n" and n: "n < 10"
    by simp_all
  from n ih(3) have "length (undo_history ((place_then_delete ^^ n) s)) < 19" by simp
  from place_then_delete_cycle [OF ih(1) ih(2) this] ih(3) show ?case by simp
qed

lemma place_without_structure_grows:
  assumes "master_object s = None" and "placed_tiles s = {}"
  shows "length (undo_history (snd (place_tile_at_current_position s)))
         = length (undo_history s) + 1"
  using assms
  by (simp add: place_tile_at_current_position_def store_undo_snapshot_def Let_def)

lemma s_start_ledger:
  "master_object s_start = None" "placed_tiles s_start = {}" "undo_history s_start = []"
  "undo_positions s_start = []" "meshes s_start = Map.empty" "mesh_counter s_start = 0"
  by (simp_all add: s_start_def invoke_def Let_def)

text \<open>
  Claim C3 against the code. The limit of 20 is applied only in the branch of
  \<open>store_undo_snapshot\<close> that copies an existing structure; the branch without a structure
  appends the sentinel and returns. From the start session, ten rounds of a commit and a
  delete at the same pose leave no structure and 20 entries in the log; the snapshot push of
  the next commit makes it 21 entries, and nothing is evicted.
\<close>

theorem undo_history_exceeds_limit:
  "master_object ((place_then_delete ^^ 10) s_start) = None
   \<and> length (undo_history ((place_then_delete ^^ 10) s_start)) = 20
   \<and> length (undo_history (store_undo_snapshot ((place_then_delete ^^ 10) s_start))) = 21
   \<and> length (undo_history
        (snd (place_tile_at_current_position ((place_then_delete ^^ 10) s_start)))) = 21"
proof -
  from place_then_delete_iter [OF s_start_ledger(1) s_start_ledger(2) s_start_ledger(3), of 10]
  have a: "master_object ((place_then_delete ^^ 10) s_start) = None"
    and b: "placed_tiles ((place_then_delete ^^ 10) s_start) = {}"
    and c: "length (undo_history ((place_then_delete ^^ 10) s_start)) = 20"
    by simp_all
  from c have d: "length (undo_history
      (store_undo_snapshot ((place_then_delete ^^ 10) s_start))) = 21"
    by (simp add: store_no_structure [OF a])
  from place_without_structure_grows [OF a b] c
  have e: "length (undo_history
      (snd (place_tile_at_current_position ((place_then_delete ^^ 10) s_start)))) = 21"
    by simp
  from a c d e show ?thesis by (intro conjI)
qed

lemma commits_step:
  assumes "commits (p # ps) s = Some s'"
  shows "\<exists>t'. place_tile_at_current_position (set_pose p s) = (True, t')
           \<and> commits ps t' = Some s'"
proof (cases "place_tile_at_current_position (set_pose p s)")
  case (Pair ok t')
  show ?thesis
  proof (cases ok)
    case True
    with Pair assms show ?thesis by simp
  next
    case False
    with Pair assms show ?thesis by simp
  qed
qed








lemma commits_run_ops:
  "commits ps s = Some s' \<Longrightarrow> s' = run_ops (map Commit ps) s"
proof (induction ps arbitrary: s)
  case Nil
  then show ?case by simp
next
  case (Cons p ps)
  from commits_step [OF Cons.prems] obtain t' where
    pl: "place_tile_at_current_position (set_pose p s) = (True, t')"
    and rest: "commits ps t' = Some s'"
    by blast
  from Cons.IH [OF rest] pl show ?case by simp
qed






lemma s_start_invoke: "invoke (Vector 0 0 0) (Euler 0 0 0) = s_start"
  by (simp add: s_start_def)



end
